theory Spec2Isabelle
  imports Complex_Main
begin

section \<open>The product detail view: variant resolution and display merge\<close>

text \<open>
  A shallow embedding of the state and event handlers of \<^verbatim>\<open>src/pages/ProductDetail.tsx\<close>:
  the interfaces become records, the React state becomes one record that every handler
  takes and returns, and what a handler hands to a collaborator (a toast, the cart) is
  returned as a value beside the state.

  Conventions. A JavaScript \<^verbatim>\<open>number\<close> that holds an identifier, a stock level, a
  quantity or a sort order is an \<open>int\<close>; a price or a percentage is a \<open>real\<close>;
  \<^verbatim>\<open>NaN\<close> is outside the model. An optional or nullable field is an \<open>option\<close>.
  A string is a \<open>char list\<close>; case conversion and the whitespace class are modelled on
  ASCII. Field names carry a prefix for their interface, since the interfaces share names
  (\<^verbatim>\<open>media_id\<close>, \<^verbatim>\<open>sku\<close>, \<^verbatim>\<open>stock\<close>, ...).
\<close>

subsection \<open>JavaScript string helpers\<close>

text \<open>\<^verbatim>\<open>String(n)\<close> for an integer \<open>n\<close>: plain decimal digits, with a sign when negative.\<close>

fun string_of_nat :: "nat \<Rightarrow> string" where
  "string_of_nat n =
     (if n < 10 then [''0123456789'' ! n]
      else string_of_nat (n div 10) @ [''0123456789'' ! (n mod 10)])"

declare string_of_nat.simps [simp del]

definition String :: "int \<Rightarrow> string" where
  "String i = (if i < 0 then CHR ''-'' # string_of_nat (nat (- i)) else string_of_nat (nat i))"

definition upper_char :: "char \<Rightarrow> char" where
  "upper_char c =
     (case map_of (zip ''abcdefghijklmnopqrstuvwxyz'' ''ABCDEFGHIJKLMNOPQRSTUVWXYZ'') c of
        Some u \<Rightarrow> u | None \<Rightarrow> c)"

definition lower_char :: "char \<Rightarrow> char" where
  "lower_char c =
     (case map_of (zip ''ABCDEFGHIJKLMNOPQRSTUVWXYZ'' ''abcdefghijklmnopqrstuvwxyz'') c of
        Some l \<Rightarrow> l | None \<Rightarrow> c)"

definition toUpperCase :: "string \<Rightarrow> string" where
  "toUpperCase s = map upper_char s"

definition toLowerCase :: "string \<Rightarrow> string" where
  "toLowerCase s = map lower_char s"

text \<open>The ASCII members of the regular expression class \<^verbatim>\<open>\s\<close>.\<close>

definition is_space :: "char \<Rightarrow> bool" where
  "is_space c = (c \<in> set [CHR '' '', CHR 0x09, CHR 0x0A, CHR 0x0B, CHR 0x0C, CHR 0x0D])"

text \<open>\<^verbatim>\<open>s.replace(/\s+/g, '-')\<close>: every maximal run of whitespace becomes one hyphen.\<close>

function replace_spaces :: "string \<Rightarrow> string" where
  "replace_spaces [] = []"
| "replace_spaces (c # cs) =
     (if is_space c then CHR ''-'' # replace_spaces (dropWhile is_space cs)
      else c # replace_spaces cs)"
  by pat_completeness auto
termination
  by (relation "measure length") (auto simp: length_dropWhile_le less_Suc_eq_le)

text \<open>\<^verbatim>\<open>xs.join(sep)\<close> on an array of strings.\<close>

fun join_with :: "string \<Rightarrow> string list \<Rightarrow> string" where
  "join_with sep [] = []"
| "join_with sep [x] = x"
| "join_with sep (x # y # ys) = x @ sep @ join_with sep (y # ys)"

text \<open>
  \<^verbatim>\<open>a || b\<close> on possibly-undefined strings: the left operand wins unless it is falsy,
  that is \<^verbatim>\<open>undefined\<close> or the empty string. \<open>or_default\<close> is the last link of such a
  chain, whose right operand is a string that is always there.
\<close>

definition truthy :: "string option \<Rightarrow> bool" where
  "truthy a = (case a of None \<Rightarrow> False | Some s \<Rightarrow> s \<noteq> [])"

definition js_or :: "string option \<Rightarrow> string option \<Rightarrow> string option" where
  "js_or a b = (if truthy a then a else b)"

definition or_default :: "string option \<Rightarrow> string \<Rightarrow> string" where
  "or_default a d = (case a of None \<Rightarrow> d | Some s \<Rightarrow> if s \<noteq> [] then s else d)"

subsection \<open>Interfaces\<close>

datatype TabType = Tab_product_details | Tab_information | Tab_reviews

record ProductMedia =
  pm_media_id :: int
  pm_type :: string
  pm_url :: string
  pm_sort_order :: int

record ProductMeta =
  short_desc :: "string option"
  full_desc :: "string option"
  meta_title :: "string option"
  meta_desc :: "string option"
  meta_keywords :: "string option"

record ProductAttribute =
  attribute_id :: int
  attribute_name :: string
  value_code :: "string option"
  value_text :: string
  value_label :: "string option"
  is_text_based :: bool

record Category =
  category_id :: int
  category_name :: string

record Brand =
  brand_id :: int
  brand_name :: string

text \<open>\<^verbatim>\<open>reviews?: any[]\<close> is opaque to the view; its entries are kept as strings.\<close>

record ProductDetails =
  product_id :: int
  product_name :: string
  cost_price :: real
  selling_price :: real
  discount_pct :: real
  description :: string
  media :: "ProductMedia list"
  meta :: "ProductMeta option"
  attributes :: "ProductAttribute list"
  category :: "Category option"
  brand :: "Brand option"
  sku :: "string option"
  rating :: "real option"
  reviews :: "string list option"
  stock :: "int option"

record VariantDefiningAttribute =
  va_name :: string
  va_value :: string

record VariantSpecificMedia =
  vm_media_id :: int
  vm_media_url :: string
  vm_media_type :: string
  vm_is_primary :: bool
  vm_display_order :: int

record Variant =
  variant_id :: int
  v_product_id :: int
  v_sku :: string
  v_price :: real
  v_stock :: int
  v_attributes :: "VariantDefiningAttribute list"
  v_media :: "VariantSpecificMedia list option"

text \<open>
  The stock of a cart line is a JavaScript number that may be \<^verbatim>\<open>Infinity\<close>
  (\<^verbatim>\<open>product.stock ?? Infinity\<close>).
\<close>

datatype stock_num = Fin int | Infinity

record CartProduct =
  cp_id :: string
  cp_product_id_ref :: int
  cp_name :: string
  cp_price :: real
  cp_currency :: string
  cp_image :: string
  cp_stock :: stock_num
  cp_sku :: string
  cp_category :: string
  cp_brand_name :: "string option"
  cp_variant_attributes :: "VariantDefiningAttribute list option"
  cp_isNew :: "bool option"
  cp_cost_price :: "real option"
  cp_discount_pct :: "real option"

subsection \<open>The state of the view\<close>

text \<open>
  One field per \<^verbatim>\<open>useState\<close>. \<open>displayData\<close> starts as the empty object
  \<^verbatim>\<open>{}\<close>, which is \<open>None\<close> here; every later value has all the fields of a
  \<open>ProductDetails\<close>.
\<close>

record view_state =
  quantity :: int
  selectedImage :: string
  activeTab :: TabType
  product :: "ProductDetails option"
  variants :: "Variant list"
  selectedVariant :: "Variant option"
  displayData :: "ProductDetails option"
  loading :: bool
  error :: "string option"

definition initial_state :: view_state where
  "initial_state =
     \<lparr>quantity = 1, selectedImage = [], activeTab = Tab_product_details, product = None,
      variants = [], selectedVariant = None, displayData = None, loading = True,
      error = None\<rparr>"

definition placeholder_image :: string where
  "placeholder_image = ''/placeholder-image.png''"

subsection \<open>Loading the product\<close>

text \<open>
  The image shown for the base product (the same four lines appear in
  \<^verbatim>\<open>fetchProductData\<close>, in the second branch of \<^verbatim>\<open>handleVariantSelect\<close> and in
  \<^verbatim>\<open>clearVariantSelection\<close>):
  \<^verbatim>\<open>
  if (product.media && product.media.length > 0)
    setSelectedImage(product.media.find(m => m.type === "IMAGE")?.url || product.media[0].url);
  else
    setSelectedImage('/placeholder-image.png');
  \<close>
\<close>

definition base_image :: "ProductMedia list \<Rightarrow> string" where
  "base_image ms =
     (case ms of
        [] \<Rightarrow> placeholder_image
      | m0 # _ \<Rightarrow> or_default (map_option pm_url (find (\<lambda>m. pm_type m = ''IMAGE'') ms)) (pm_url m0))"

text \<open>
  What a \<^verbatim>\<open>fetch\<close> came back with: a body when \<^verbatim>\<open>response.ok\<close>, the status
  otherwise, or the message of the error thrown (\<open>None\<close> when the thrown value is not an
  \<^verbatim>\<open>Error\<close>). The variants arrive here already formatted by the \<^verbatim>\<open>map\<close> of lines
  172-186.
\<close>

datatype 'a response = Ok 'a | NotOk int | Threw "string option"

definition catch_error :: "string option \<Rightarrow> view_state \<Rightarrow> view_state" where
  "catch_error msg st =
     st\<lparr>error := Some (case msg of Some m \<Rightarrow> m | None \<Rightarrow> ''An unknown error occurred.''),
        loading := False\<rparr>"

definition fetchProductData ::
  "string option \<Rightarrow> ProductDetails response \<Rightarrow> Variant list response \<Rightarrow> view_state \<Rightarrow> view_state"
where
  "fetchProductData productId productResponse variantsResponse st =
     (if \<not> truthy productId then st
      else
        let st1 = st\<lparr>loading := True, error := None, selectedVariant := None, quantity := 1\<rparr>
        in case productResponse of
             Threw msg \<Rightarrow> catch_error msg st1
           | NotOk status \<Rightarrow>
               catch_error
                 (Some (if status = 404 then ''Product not found.''
                        else ''Failed to fetch product details: '' @ String status)) st1
           | Ok productData \<Rightarrow>
               let st2 = st1\<lparr>product := Some productData, displayData := Some productData,
                             selectedImage := base_image (media productData)\<rparr>
               in (case variantsResponse of
                     Threw msg \<Rightarrow> catch_error msg st2
                   | NotOk status \<Rightarrow> st2\<lparr>variants := [], loading := False\<rparr>
                   | Ok formattedVariants \<Rightarrow>
                       st2\<lparr>variants := formattedVariants, loading := False\<rparr>))"

subsection \<open>Selecting and clearing a variant\<close>

text \<open>The object built for each entry of \<^verbatim>\<open>variant.media\<close> (lines 217-222).\<close>

definition display_media :: "VariantSpecificMedia \<Rightarrow> ProductMedia" where
  "display_media m =
     \<lparr>pm_media_id = vm_media_id m, pm_type = toUpperCase (vm_media_type m),
      pm_url = vm_media_url m, pm_sort_order = vm_display_order m\<rparr>"

text \<open>The object built for the defining attribute at position \<open>index\<close> (lines 228-235).\<close>

definition display_attribute :: "int \<Rightarrow> nat \<Rightarrow> VariantDefiningAttribute \<Rightarrow> ProductAttribute" where
  "display_attribute vid index attr =
     \<lparr>attribute_id = - (vid * 1000 + int index + 1),
      attribute_name = va_name attr,
      value_code =
        Some (replace_spaces (toLowerCase (va_name attr)) @ ''-'' @
              replace_spaces (toLowerCase (va_value attr))),
      value_text = va_value attr,
      value_label = Some (va_value attr),
      is_text_based = True\<rparr>"

definition display_attributes :: "Variant \<Rightarrow> ProductAttribute list" where
  "display_attributes variant =
     map (\<lambda>(index, attr). display_attribute (variant_id variant) index attr)
       (enumerate 0 (v_attributes variant))"

definition newDisplayData :: "ProductDetails \<Rightarrow> Variant \<Rightarrow> ProductDetails" where
  "newDisplayData p variant =
     p\<lparr>selling_price := v_price variant,
       media := (case v_media variant of
                   Some (m # ms) \<Rightarrow> map display_media (m # ms)
                 | _ \<Rightarrow> media p),
       attributes := display_attributes variant,
       sku := Some (v_sku variant),
       stock := Some (v_stock variant)\<rparr>"

definition is_image :: "VariantSpecificMedia \<Rightarrow> bool" where
  "is_image m = (toUpperCase (vm_media_type m) = ''IMAGE'')"

text \<open>Lines 242-250: the image shown once \<open>variant\<close> is selected.\<close>

definition variant_image :: "ProductDetails \<Rightarrow> Variant \<Rightarrow> string" where
  "variant_image p variant =
     (case v_media variant of
        Some (m # ms) \<Rightarrow>
          (let primaryVariantMedia = find (\<lambda>x. vm_is_primary x \<and> is_image x) (m # ms);
               firstVariantImage = find is_image (m # ms)
           in or_default
                (js_or (js_or (map_option vm_media_url primaryVariantMedia)
                              (map_option vm_media_url firstVariantImage))
                       (case media p of [] \<Rightarrow> None | m0 # _ \<Rightarrow> Some (pm_url m0)))
                placeholder_image)
      | _ \<Rightarrow> base_image (media p))"

definition handleVariantSelect :: "Variant \<Rightarrow> view_state \<Rightarrow> view_state" where
  "handleVariantSelect variant st =
     (case product st of
        None \<Rightarrow> st
      | Some p \<Rightarrow>
          st\<lparr>selectedVariant := Some variant,
             quantity := 1,
             displayData := Some (newDisplayData p variant),
             selectedImage := variant_image p variant\<rparr>)"

definition clearVariantSelection :: "view_state \<Rightarrow> view_state" where
  "clearVariantSelection st =
     (case product st of
        None \<Rightarrow> st
      | Some p \<Rightarrow>
          st\<lparr>selectedVariant := None,
             displayData := Some p,
             quantity := 1,
             selectedImage := base_image (media p)\<rparr>)"

subsection \<open>Quantity\<close>

definition handleQuantityChange :: "int \<Rightarrow> view_state \<Rightarrow> view_state" where
  "handleQuantityChange amount st = st\<lparr>quantity := max 1 (quantity st + amount)\<rparr>"

text \<open>
  The two buttons that call it (lines 642-657), with the stock the page shows:
  \<^verbatim>\<open>
  const currentStockForDisplay = selectedVariant ? selectedVariant.stock : (product.stock ?? undefined);
  <button onClick={() => handleQuantityChange(-1)} disabled={quantity <= 1}>
  <button onClick={() => handleQuantityChange(1)}
          disabled={currentStockForDisplay !== undefined && quantity >= currentStockForDisplay}>
  \<close>
  A click on a disabled button does nothing.
\<close>

definition currentStockForDisplay :: "view_state \<Rightarrow> int option" where
  "currentStockForDisplay st =
     (case selectedVariant st of
        Some v \<Rightarrow> Some (v_stock v)
      | None \<Rightarrow> (case product st of Some p \<Rightarrow> stock p | None \<Rightarrow> None))"

definition decrease_disabled :: "view_state \<Rightarrow> bool" where
  "decrease_disabled st = (quantity st \<le> 1)"

definition increase_disabled :: "view_state \<Rightarrow> bool" where
  "increase_disabled st =
     (case currentStockForDisplay st of None \<Rightarrow> False | Some s \<Rightarrow> quantity st \<ge> s)"

datatype quantity_button = Decrease | Increase

fun click :: "quantity_button \<Rightarrow> view_state \<Rightarrow> view_state" where
  "click Decrease st = (if decrease_disabled st then st else handleQuantityChange (- 1) st)"
| "click Increase st = (if increase_disabled st then st else handleQuantityChange 1 st)"

fun clicks :: "quantity_button list \<Rightarrow> view_state \<Rightarrow> view_state" where
  "clicks [] st = st"
| "clicks (b # bs) st = clicks bs (click b st)"

subsection \<open>Adding to the cart\<close>

text \<open>
  \<^verbatim>\<open>handleAddToCart\<close> sets no state. It ends in one of four ways: it returns at once
  (no product), it shows one of two error toasts and returns, or it calls the cart's
  \<^verbatim>\<open>addToCart(cartProduct, quantity)\<close> and shows the success toast.
\<close>

datatype cart_error = InsufficientStock | OutOfStock

fun toast_error :: "cart_error \<Rightarrow> string" where
  "toast_error InsufficientStock = ''Not enough items in stock.''"
| "toast_error OutOfStock = ''This item is out of stock.''"

datatype outcome = NoOp | Rejected cart_error | Added CartProduct int

definition toast_success :: "CartProduct \<Rightarrow> string" where
  "toast_success cartProduct = cp_name cartProduct @ '' added to cart!''"

definition currentStock :: "ProductDetails \<Rightarrow> Variant option \<Rightarrow> stock_num" where
  "currentStock p sv =
     (case sv of
        Some v \<Rightarrow> Fin (v_stock v)
      | None \<Rightarrow> (case stock p of Some s \<Rightarrow> Fin s | None \<Rightarrow> Infinity))"

text \<open>\<^verbatim>\<open>currentStock < quantity\<close>, where \<^verbatim>\<open>Infinity\<close> is below no quantity.\<close>

fun stock_less :: "stock_num \<Rightarrow> int \<Rightarrow> bool" where
  "stock_less (Fin s) q = (s < q)"
| "stock_less Infinity q = False"

definition cart_image :: "ProductDetails \<Rightarrow> Variant option \<Rightarrow> string" where
  "cart_image p sv =
     (let variantMedia = (case sv of None \<Rightarrow> None | Some v \<Rightarrow> v_media v);
          primary = (case variantMedia of
                       None \<Rightarrow> None
                     | Some ms \<Rightarrow> map_option vm_media_url (find vm_is_primary ms));
          first = (case variantMedia of
                     Some (m # _) \<Rightarrow> Some (vm_media_url m)
                   | _ \<Rightarrow> None);
          base = (case media p of [] \<Rightarrow> None | m0 # _ \<Rightarrow> Some (pm_url m0))
      in or_default (js_or (js_or primary first) base) placeholder_image)"

definition cartProduct :: "ProductDetails \<Rightarrow> Variant option \<Rightarrow> CartProduct" where
  "cartProduct p sv =
     \<lparr>cp_id = (case sv of
                 Some v \<Rightarrow> String (product_id p) @ ''-'' @ String (variant_id v)
               | None \<Rightarrow> String (product_id p)),
      cp_product_id_ref = product_id p,
      cp_name = (case sv of
                   Some v \<Rightarrow>
                     product_name p @ '' ('' @ join_with '' / '' (map va_value (v_attributes v)) @ '')''
                 | None \<Rightarrow> product_name p),
      cp_price = (case sv of Some v \<Rightarrow> v_price v | None \<Rightarrow> selling_price p),
      cp_currency = ''INR'',
      cp_image = cart_image p sv,
      cp_stock = currentStock p sv,
      cp_sku = (case sv of
                  Some v \<Rightarrow> v_sku v
                | None \<Rightarrow> or_default (sku p) (''BASE-'' @ String (product_id p))),
      cp_category = or_default (map_option category_name (category p)) ''Uncategorized'',
      cp_brand_name = map_option brand_name (brand p),
      cp_variant_attributes = map_option v_attributes sv,
      cp_isNew = None,
      cp_cost_price = Some (cost_price p),
      cp_discount_pct = Some (discount_pct p)\<rparr>"

definition handleAddToCart :: "view_state \<Rightarrow> view_state \<times> outcome" where
  "handleAddToCart st =
     (case product st of
        None \<Rightarrow> (st, NoOp)
      | Some p \<Rightarrow>
          if stock_less (currentStock p (selectedVariant st)) (quantity st)
          then (st, Rejected InsufficientStock)
          else if currentStock p (selectedVariant st) = Fin 0
          then (st, Rejected OutOfStock)
          else (st, Added (cartProduct p (selectedVariant st)) (quantity st)))"

text \<open>
  The only call site of the handler is the "Add To Cart" button (lines 662-664):
  \<^verbatim>\<open>
  <button onClick={handleAddToCart} disabled={currentStockForDisplay === 0}>
  \<close>
  A click on it while it is disabled does nothing.
\<close>

definition addToCart_disabled :: "view_state \<Rightarrow> bool" where
  "addToCart_disabled st = (currentStockForDisplay st = Some 0)"

definition click_addToCart :: "view_state \<Rightarrow> view_state \<times> outcome" where
  "click_addToCart st = (if addToCart_disabled st then (st, NoOp) else handleAddToCart st)"

subsection \<open>Sequences of user events\<close>

text \<open>
  The handlers a loaded page can run, in any order: the variant buttons, "Show base
  product details", the quantity handler with any amount, "Add To Cart", and a thumbnail
  (\<^verbatim>\<open>setSelectedImage(media.url)\<close>).
\<close>

datatype event =
  Select Variant
| Clear
| ChangeQuantity int
| AddToCart
| Thumbnail string

fun step :: "event \<Rightarrow> view_state \<Rightarrow> view_state" where
  "step (Select v) st = handleVariantSelect v st"
| "step Clear st = clearVariantSelection st"
| "step (ChangeQuantity d) st = handleQuantityChange d st"
| "step AddToCart st = fst (handleAddToCart st)"
| "step (Thumbnail u) st = st\<lparr>selectedImage := u\<rparr>"

fun run :: "event list \<Rightarrow> view_state \<Rightarrow> view_state" where
  "run [] st = st"
| "run (e # es) st = run es (step e st)"

text \<open>The state once both fetches for product \<open>p\<close> have succeeded on a fresh page.\<close>

definition loaded :: "ProductDetails \<Rightarrow> Variant list \<Rightarrow> view_state" where
  "loaded p vs = fetchProductData (Some (String (product_id p))) (Ok p) (Ok vs) initial_state"

subsection \<open>The rules as the specification words them\<close>

text \<open>
  The image after \<open>select(V)\<close>, in the specification's order: V's primary IMAGE entry,
  else V's first IMAGE entry, else the base product's first IMAGE entry, else the
  placeholder.
\<close>

definition spec_selected_image :: "ProductDetails \<Rightarrow> Variant \<Rightarrow> string" where
  "spec_selected_image p v =
     (let ms = (case v_media v of None \<Rightarrow> [] | Some ms \<Rightarrow> ms)
      in case find (\<lambda>m. vm_is_primary m \<and> is_image m) ms of
           Some m \<Rightarrow> vm_media_url m
         | None \<Rightarrow>
             (case find is_image ms of
                Some m \<Rightarrow> vm_media_url m
              | None \<Rightarrow>
                  (case find (\<lambda>m. pm_type m = ''IMAGE'') (media p) of
                     Some m \<Rightarrow> pm_url m
                   | None \<Rightarrow> placeholder_image)))"



text \<open>
  The two shapes of the display state: the base product itself, or the base product with
  price, stock, sku, media and attributes all taken from the selected variant.
\<close>

definition base_shape :: "ProductDetails \<Rightarrow> view_state \<Rightarrow> bool" where
  "base_shape p st = (selectedVariant st = None \<and> displayData st = Some p)"

definition merged_shape :: "ProductDetails \<Rightarrow> Variant \<Rightarrow> view_state \<Rightarrow> bool" where
  "merged_shape p v st =
     (selectedVariant st = Some v \<and>
      displayData st =
        Some (p\<lparr>selling_price := v_price v,
                stock := Some (v_stock v),
                sku := Some (v_sku v),
                media := (case v_media v of
                            Some (m # ms) \<Rightarrow> map display_media (m # ms)
                          | _ \<Rightarrow> media p),
                attributes := display_attributes v\<rparr>))"

definition coherent :: "ProductDetails \<Rightarrow> view_state \<Rightarrow> bool" where
  "coherent p st =
     (product st = Some p \<and>
      (case selectedVariant st of None \<Rightarrow> base_shape p st | Some v \<Rightarrow> merged_shape p v st))"

subsection \<open>A product page to evaluate on\<close>

text \<open>
  The scenario of the specification: a shirt with no stock of its own and two images, a
  size M with three in stock and a size L with none. Size M brings two images of its own;
  a size S, in stock, brings none.
\<close>

definition shirt :: ProductDetails where
  "shirt =
     \<lparr>product_id = 10, product_name = ''Shirt'', cost_price = 12, selling_price = 18,
      discount_pct = 5, description = ''Cotton shirt'',
      media = [\<lparr>pm_media_id = 1, pm_type = ''IMAGE'', pm_url = ''a.jpg'', pm_sort_order = 0\<rparr>,
               \<lparr>pm_media_id = 2, pm_type = ''IMAGE'', pm_url = ''b.jpg'', pm_sort_order = 1\<rparr>],
      meta = None, attributes = [],
      category = Some \<lparr>category_id = 4, category_name = ''Clothing''\<rparr>,
      brand = Some \<lparr>brand_id = 9, brand_name = ''Acme''\<rparr>,
      sku = None, rating = None, reviews = None, stock = None\<rparr>"

definition size_m :: Variant where
  "size_m =
     \<lparr>variant_id = 1, v_product_id = 10, v_sku = ''SH-M'', v_price = 20, v_stock = 3,
      v_attributes = [\<lparr>va_name = ''Size'', va_value = ''M''\<rparr>],
      v_media = Some [\<lparr>vm_media_id = 7, vm_media_url = ''m-side.jpg'', vm_media_type = ''image'',
                        vm_is_primary = False, vm_display_order = 2\<rparr>,
                      \<lparr>vm_media_id = 8, vm_media_url = ''m-front.jpg'', vm_media_type = ''IMAGE'',
                        vm_is_primary = True, vm_display_order = 1\<rparr>]\<rparr>"

definition size_l :: Variant where
  "size_l =
     \<lparr>variant_id = 2, v_product_id = 10, v_sku = ''SH-L'', v_price = 22, v_stock = 0,
      v_attributes = [\<lparr>va_name = ''Size'', va_value = ''L''\<rparr>],
      v_media = Some []\<rparr>"

definition size_s :: Variant where
  "size_s =
     \<lparr>variant_id = 3, v_product_id = 10, v_sku = ''SH-S'', v_price = 19, v_stock = 5,
      v_attributes = [\<lparr>va_name = ''Size'', va_value = ''S''\<rparr>],
      v_media = Some []\<rparr>"

definition shirt_page :: view_state where
  "shirt_page = loaded shirt [size_m, size_l, size_s]"

text \<open>The same shirt with a single video and no image.\<close>

definition video_shirt :: ProductDetails where
  "video_shirt =
     shirt\<lparr>media := [\<lparr>pm_media_id = 3, pm_type = ''VIDEO'', pm_url = ''v.mp4'', pm_sort_order = 0\<rparr>]\<rparr>"

text \<open>The same shirt with a stock of its own, which is zero; and with no media at all.\<close>

definition sold_out_shirt :: ProductDetails where
  "sold_out_shirt = shirt\<lparr>stock := Some 0\<rparr>"


section \<open>Properties\<close>

subsection \<open>The loaded page\<close>

lemma string_of_nat_nonempty: "string_of_nat n \<noteq> []"
  by (subst string_of_nat.simps) simp

lemma String_nonempty: "String i \<noteq> []"
  by (simp add: String_def string_of_nat_nonempty)

lemma loaded_eq:
  "loaded p vs =
     \<lparr>quantity = 1, selectedImage = base_image (media p), activeTab = Tab_product_details,
      product = Some p, variants = vs, selectedVariant = None, displayData = Some p,
      loading = False, error = None\<rparr>"
  by (simp add: loaded_def fetchProductData_def truthy_def String_nonempty initial_state_def)

subsection \<open>Adding to the cart: the order of the stock checks\<close>

lemma addToCart_without_product: "product st = None \<Longrightarrow> handleAddToCart st = (st, NoOp)"
  by (simp add: handleAddToCart_def)

lemma addToCart_insufficient:
  "product st = Some p \<Longrightarrow> currentStock p (selectedVariant st) = Fin s \<Longrightarrow> s < quantity st \<Longrightarrow>
   handleAddToCart st = (st, Rejected InsufficientStock)"
  by (simp add: handleAddToCart_def)

text \<open>
  The test \<^verbatim>\<open>currentStock < quantity\<close> comes first in the source, so with a quantity of
  at least one the branch \<^verbatim>\<open>currentStock === 0\<close> is never taken.
\<close>

lemma out_of_stock_branch_dead:
  "1 \<le> quantity st \<Longrightarrow> snd (handleAddToCart st) \<noteq> Rejected OutOfStock"
  by (auto simp: handleAddToCart_def split: option.splits)

text \<open>
  The button is disabled exactly when the stock the handler resolves is zero, so a click
  never ends in the out-of-stock toast.
\<close>

lemma zero_stock_disables_button:
  "product st = Some p \<Longrightarrow>
   (currentStock p (selectedVariant st) = Fin 0) = addToCart_disabled st"
  by (auto simp: currentStock_def addToCart_disabled_def currentStockForDisplay_def
      split: option.splits)

lemma click_never_out_of_stock: "snd (click_addToCart st) \<noteq> Rejected OutOfStock"
proof (cases "product st")
  case None
  then show ?thesis
    by (simp add: click_addToCart_def handleAddToCart_def)
next
  case (Some p)
  show ?thesis
  proof (cases "addToCart_disabled st")
    case True
    then show ?thesis by (simp add: click_addToCart_def)
  next
    case False
    then have "currentStock p (selectedVariant st) \<noteq> Fin 0"
      using zero_stock_disables_button [OF Some] by simp
    then show ?thesis
      using Some False by (simp add: click_addToCart_def handleAddToCart_def)
  qed
qed

text \<open>
  Claim C1, as stated: \<open>addToCart()\<close> fails with \<open>OutOfStock\<close> when the effective stock
  is zero. On the page of a shirt whose own stock is 0, with no variant selected and
  quantity 1, the "Add To Cart" button is disabled and a click does nothing; the handler
  itself, which tests \<^verbatim>\<open>currentStock < quantity\<close> first, answers
  \<open>InsufficientStock\<close>. Neither is \<open>OutOfStock\<close>.
\<close>

theorem sold_out_page_reports_no_out_of_stock:
  "product (loaded sold_out_shirt []) = Some sold_out_shirt \<and>
   currentStock sold_out_shirt (selectedVariant (loaded sold_out_shirt [])) = Fin 0 \<and>
   quantity (loaded sold_out_shirt []) = 1 \<and>
   addToCart_disabled (loaded sold_out_shirt []) \<and>
   snd (click_addToCart (loaded sold_out_shirt [])) = NoOp \<and>
   snd (handleAddToCart (loaded sold_out_shirt [])) = Rejected InsufficientStock \<and>
   Rejected InsufficientStock \<noteq> Rejected OutOfStock"
  by (simp add: click_addToCart_def addToCart_disabled_def currentStockForDisplay_def
      handleAddToCart_def currentStock_def loaded_eq sold_out_shirt_def)

text \<open>
  Claim C1, amended. \<open>addToCart()\<close> does nothing when no product is loaded. The
  effective stock is the selected variant's stock, else the product's own stock when it
  has one, else unbounded. When the quantity exceeds an effective stock other than zero,
  the handler, and so a click on the button, fails with \<open>InsufficientStock\<close>. When the
  effective stock is zero the button is disabled and a click does nothing: the page shows
  the out-of-stock condition on the button, and no click ends in \<open>OutOfStock\<close>. The two
  failures keep distinct messages.
\<close>

theorem addToCart_preconditions:
  "(product st = None \<longrightarrow> handleAddToCart st = (st, NoOp)) \<and>
   (\<forall>p v. product st = Some p \<and> selectedVariant st = Some v \<longrightarrow>
      currentStock p (selectedVariant st) = Fin (v_stock v)) \<and>
   (\<forall>p s. product st = Some p \<and> selectedVariant st = None \<and> stock p = Some s \<longrightarrow>
      currentStock p (selectedVariant st) = Fin s) \<and>
   (\<forall>p. product st = Some p \<and> selectedVariant st = None \<and> stock p = None \<longrightarrow>
      currentStock p (selectedVariant st) = Infinity) \<and>
   (\<forall>p s. product st = Some p \<and> currentStock p (selectedVariant st) = Fin s \<and>
      s \<noteq> 0 \<and> s < quantity st \<longrightarrow>
      handleAddToCart st = (st, Rejected InsufficientStock) \<and>
      click_addToCart st = (st, Rejected InsufficientStock)) \<and>
   (\<forall>p. product st = Some p \<and> currentStock p (selectedVariant st) = Fin 0 \<longrightarrow>
      addToCart_disabled st \<and> click_addToCart st = (st, NoOp)) \<and>
   snd (click_addToCart st) \<noteq> Rejected OutOfStock \<and>
   toast_error InsufficientStock \<noteq> toast_error OutOfStock"
proof -
  have a: "product st = None \<longrightarrow> handleAddToCart st = (st, NoOp)"
    by (simp add: addToCart_without_product)
  have b: "\<forall>p v. product st = Some p \<and> selectedVariant st = Some v \<longrightarrow>
      currentStock p (selectedVariant st) = Fin (v_stock v)"
    by (simp add: currentStock_def)
  have c: "\<forall>p s. product st = Some p \<and> selectedVariant st = None \<and> stock p = Some s \<longrightarrow>
      currentStock p (selectedVariant st) = Fin s"
    by (simp add: currentStock_def)
  have d: "\<forall>p. product st = Some p \<and> selectedVariant st = None \<and> stock p = None \<longrightarrow>
      currentStock p (selectedVariant st) = Infinity"
    by (simp add: currentStock_def)
  have e: "\<forall>p s. product st = Some p \<and> currentStock p (selectedVariant st) = Fin s \<and>
      s \<noteq> 0 \<and> s < quantity st \<longrightarrow>
      handleAddToCart st = (st, Rejected InsufficientStock) \<and>
      click_addToCart st = (st, Rejected InsufficientStock)"
  proof (intro allI impI)
    fix p s
    assume h: "product st = Some p \<and> currentStock p (selectedVariant st) = Fin s \<and>
      s \<noteq> 0 \<and> s < quantity st"
    then have r: "handleAddToCart st = (st, Rejected InsufficientStock)"
      by (simp add: addToCart_insufficient)
    have "\<not> addToCart_disabled st"
      using h zero_stock_disables_button [of st p] by simp
    then show "handleAddToCart st = (st, Rejected InsufficientStock) \<and>
      click_addToCart st = (st, Rejected InsufficientStock)"
      using r by (simp add: click_addToCart_def)
  qed
  have f: "\<forall>p. product st = Some p \<and> currentStock p (selectedVariant st) = Fin 0 \<longrightarrow>
      addToCart_disabled st \<and> click_addToCart st = (st, NoOp)"
    using zero_stock_disables_button [of st] by (simp add: click_addToCart_def)
  have g: "snd (click_addToCart st) \<noteq> Rejected OutOfStock"
    by (rule click_never_out_of_stock)
  have h: "toast_error InsufficientStock \<noteq> toast_error OutOfStock"
    by simp
  from a b c d e f g h show ?thesis by blast
qed

theorem addToCart_preconditions_witness:
  "product initial_state = None \<and> snd (handleAddToCart initial_state) = NoOp \<and>
   product (run [Select size_m, ChangeQuantity 5] shirt_page) = Some shirt \<and>
   selectedVariant (run [Select size_m, ChangeQuantity 5] shirt_page) = Some size_m \<and>
   currentStock shirt (selectedVariant (run [Select size_m, ChangeQuantity 5] shirt_page)) = Fin 3 \<and>
   quantity (run [Select size_m, ChangeQuantity 5] shirt_page) = 6 \<and>
   snd (click_addToCart (run [Select size_m, ChangeQuantity 5] shirt_page)) =
     Rejected InsufficientStock \<and>
   product (loaded sold_out_shirt []) = Some sold_out_shirt \<and>
   selectedVariant (loaded sold_out_shirt []) = None \<and>
   stock sold_out_shirt = Some 0 \<and>
   snd (click_addToCart (loaded sold_out_shirt [])) = NoOp \<and>
   selectedVariant shirt_page = None \<and> stock shirt = None \<and>
   currentStock shirt (selectedVariant shirt_page) = Infinity"
  using addToCart_preconditions [of initial_state]
    addToCart_preconditions [of "run [Select size_m, ChangeQuantity 5] shirt_page"]
    addToCart_preconditions [of "loaded sold_out_shirt []"]
    addToCart_preconditions [of shirt_page]
  by (simp add: handleVariantSelect_def handleQuantityChange_def handleAddToCart_def
      click_addToCart_def addToCart_disabled_def currentStockForDisplay_def currentStock_def
      initial_state_def shirt_page_def loaded_eq size_m_def sold_out_shirt_def shirt_def)

subsection \<open>Quantity: the floor in the handler, the ceiling in the button\<close>

lemma click_stock: "currentStockForDisplay (click b st) = currentStockForDisplay st"
  by (cases b)
     (simp_all add: currentStockForDisplay_def handleQuantityChange_def split: option.splits)

lemma click_floor: "1 \<le> quantity st \<Longrightarrow> 1 \<le> quantity (click b st)"
  by (cases b) (simp_all add: handleQuantityChange_def)

lemma click_bound:
  "currentStockForDisplay st = Some bound \<Longrightarrow> 1 \<le> quantity st \<Longrightarrow> quantity st \<le> bound \<Longrightarrow>
   quantity (click b st) \<le> bound"
  by (cases b)
     (auto simp: increase_disabled_def decrease_disabled_def handleQuantityChange_def)

lemma clicks_bound:
  "currentStockForDisplay st = Some bound \<Longrightarrow> 1 \<le> quantity st \<Longrightarrow> quantity st \<le> bound \<Longrightarrow>
   quantity (clicks bs st) \<le> bound"
proof (induction bs arbitrary: st)
  case Nil
  then show ?case by simp
next
  case (Cons b bs)
  have "currentStockForDisplay (click b st) = Some bound"
    using Cons.prems(1) by (simp add: click_stock)
  moreover have "1 \<le> quantity (click b st)"
    using Cons.prems(2) by (rule click_floor)
  moreover have "quantity (click b st) \<le> bound"
    using Cons.prems by (rule click_bound)
  ultimately show ?case
    using Cons.IH by simp
qed

text \<open>
  Claim C2, as stated: \<open>changeQuantity(d)\<close> never exceeds the active stock bound, for a
  delta of any magnitude. With size M selected (stock 3) and quantity 1, the handler
  takes a delta of 5 to quantity 6.
\<close>

theorem quantity_change_ignores_stock:
  "currentStockForDisplay (run [Select size_m] shirt_page) = Some 3 \<and>
   quantity (run [Select size_m] shirt_page) = 1 \<and>
   quantity (handleQuantityChange 5 (run [Select size_m] shirt_page)) = 6 \<and>
   \<not> quantity (handleQuantityChange 5 (run [Select size_m] shirt_page)) \<le> 3"
  by (simp add: handleQuantityChange_def handleVariantSelect_def shirt_page_def loaded_eq
      currentStockForDisplay_def size_m_def)

text \<open>
  Claim C2, amended: for every quantity and every delta the handler yields
  \<open>max(1, q + d)\<close>, which is at least 1; it does not look at the stock. The ceiling is
  kept by the page's two quantity buttons, which step by one and are disabled at the
  floor and at the known stock: from a quantity between 1 and the bound, no sequence of
  clicks takes the quantity above the bound.
\<close>

theorem quantity_floor_and_button_ceiling:
  "quantity (handleQuantityChange d st) = max 1 (quantity st + d) \<and>
   1 \<le> quantity (handleQuantityChange d st) \<and>
   (currentStockForDisplay st = Some bound \<longrightarrow> 1 \<le> quantity st \<longrightarrow> quantity st \<le> bound \<longrightarrow>
      quantity (clicks bs st) \<le> bound)"
  by (simp add: handleQuantityChange_def clicks_bound)

theorem quantity_floor_and_button_ceiling_witness:
  "currentStockForDisplay (run [Select size_m] shirt_page) = Some 3 \<and>
   1 \<le> quantity (run [Select size_m] shirt_page) \<and>
   quantity (run [Select size_m] shirt_page) \<le> 3 \<and>
   quantity (handleQuantityChange (- 7) (run [Select size_m] shirt_page)) = 1 \<and>
   quantity (clicks [Increase, Increase, Increase, Increase, Decrease]
               (run [Select size_m] shirt_page)) \<le> 3"
  using quantity_floor_and_button_ceiling
    [of "- 7" "run [Select size_m] shirt_page" 3 "[Increase, Increase, Increase, Increase, Decrease]"]
  by (simp add: handleVariantSelect_def shirt_page_def loaded_eq currentStockForDisplay_def
      size_m_def)

subsection \<open>Selecting a variant\<close>

lemma upper_kind: "toUpperCase ''IMAGE'' = ''IMAGE''" "toUpperCase ''VIDEO'' = ''VIDEO''"
  by (simp_all add: toUpperCase_def upper_char_def)

lemma display_attributes_length: "length (display_attributes v) = length (v_attributes v)"
  by (simp add: display_attributes_def)

lemma display_attributes_nth:
  "i < length (v_attributes v) \<Longrightarrow>
   display_attributes v ! i = display_attribute (variant_id v) i (v_attributes v ! i)"
  by (simp add: display_attributes_def nth_enumerate_eq)

text \<open>
  Claim C3. On a loaded product \<open>p\<close>, after \<open>select(v)\<close> the display state carries
  \<open>v\<close>'s price, stock and sku; its media are \<open>v\<close>'s media, entry by entry in the
  display shape (same id, url and order, the kind in upper case), when \<open>v\<close> has any, and
  \<open>p\<close>'s media otherwise; its attributes are \<open>v\<close>'s defining attributes, entry by entry
  in the display-attribute shape; and the quantity is 1.
\<close>

theorem select_display_state:
  assumes "product st = Some p"
  shows "\<exists>d. displayData (handleVariantSelect v st) = Some d \<and>
     selling_price d = v_price v \<and> stock d = Some (v_stock v) \<and> sku d = Some (v_sku v) \<and>
     (\<forall>ms. v_media v = Some ms \<and> ms \<noteq> [] \<longrightarrow>
        list_all2
          (\<lambda>d m. pm_media_id d = vm_media_id m \<and> pm_url d = vm_media_url m \<and>
                 pm_sort_order d = vm_display_order m \<and>
                 pm_type d = toUpperCase (vm_media_type m))
          (media d) ms) \<and>
     (v_media v = None \<or> v_media v = Some [] \<longrightarrow> media d = media p) \<and>
     length (attributes d) = length (v_attributes v) \<and>
     (\<forall>i < length (v_attributes v).
        attribute_name (attributes d ! i) = va_name (v_attributes v ! i) \<and>
        value_text (attributes d ! i) = va_value (v_attributes v ! i) \<and>
        value_label (attributes d ! i) = Some (va_value (v_attributes v ! i)) \<and>
        is_text_based (attributes d ! i) \<and>
        attribute_id (attributes d ! i) = - (variant_id v * 1000 + int i + 1)) \<and>
     selectedVariant (handleVariantSelect v st) = Some v \<and>
     quantity (handleVariantSelect v st) = 1"
proof -
  let ?d = "newDisplayData p v"
  have d: "displayData (handleVariantSelect v st) = Some ?d"
    using assms by (simp add: handleVariantSelect_def)
  have m1: "\<forall>ms. v_media v = Some ms \<and> ms \<noteq> [] \<longrightarrow>
        list_all2
          (\<lambda>d m. pm_media_id d = vm_media_id m \<and> pm_url d = vm_media_url m \<and>
                 pm_sort_order d = vm_display_order m \<and>
                 pm_type d = toUpperCase (vm_media_type m))
          (media ?d) ms"
    by (auto simp: newDisplayData_def display_media_def list_all2_map1 list_all2_same split: list.splits)
  have m2: "v_media v = None \<or> v_media v = Some [] \<longrightarrow> media ?d = media p"
    by (auto simp: newDisplayData_def)
  have a: "attributes ?d = display_attributes v"
    by (simp add: newDisplayData_def)
  have rest: "selling_price ?d = v_price v \<and> stock ?d = Some (v_stock v) \<and> sku ?d = Some (v_sku v)"
    by (simp add: newDisplayData_def)
  have s: "selectedVariant (handleVariantSelect v st) = Some v \<and>
     quantity (handleVariantSelect v st) = 1"
    using assms by (simp add: handleVariantSelect_def)
  show ?thesis
    using d m1 m2 rest s
    by (simp add: a display_attributes_length display_attributes_nth display_attribute_def)
qed

theorem select_display_state_witness:
  "product shirt_page = Some shirt \<and>
   v_media size_m \<noteq> None \<and> v_media size_m \<noteq> Some [] \<and>
   displayData (handleVariantSelect size_m shirt_page) =
     Some (shirt\<lparr>selling_price := 20,
                  media := [\<lparr>pm_media_id = 7, pm_type = ''IMAGE'', pm_url = ''m-side.jpg'', pm_sort_order = 2\<rparr>,
                            \<lparr>pm_media_id = 8, pm_type = ''IMAGE'', pm_url = ''m-front.jpg'', pm_sort_order = 1\<rparr>],
                  attributes := [\<lparr>attribute_id = - 1001, attribute_name = ''Size'',
                                   value_code = Some ''size-m'', value_text = ''M'',
                                   value_label = Some ''M'', is_text_based = True\<rparr>],
                  sku := Some ''SH-M'', stock := Some 3\<rparr>) \<and>
   v_media size_l = Some [] \<and>
   media (the (displayData (handleVariantSelect size_l shirt_page))) = media shirt \<and>
   quantity (handleVariantSelect size_m (handleQuantityChange 2 shirt_page)) = 1"
  using select_display_state [of shirt_page shirt size_m]
    select_display_state [of shirt_page shirt size_l]
    select_display_state [of "handleQuantityChange 2 shirt_page" shirt size_m]
  by (simp add: handleVariantSelect_def handleQuantityChange_def newDisplayData_def
      display_attributes_def display_attribute_def display_media_def toUpperCase_def
      toLowerCase_def upper_char_def lower_char_def is_space_def enumerate_eq_zip
      shirt_page_def loaded_eq size_m_def size_l_def shirt_def)

subsection \<open>Clearing the selection\<close>

lemma base_image_first_image:
  "find (\<lambda>m. pm_type m = ''IMAGE'') ms = Some m \<Longrightarrow> pm_url m \<noteq> [] \<Longrightarrow> base_image ms = pm_url m"
  by (cases ms) (simp_all add: base_image_def or_default_def)

lemma base_image_no_image:
  "\<not> truthy (map_option pm_url (find (\<lambda>m. pm_type m = ''IMAGE'') (m0 # ms))) \<Longrightarrow>
   base_image (m0 # ms) = pm_url m0"
  by (auto simp: base_image_def or_default_def truthy_def split: option.splits)

lemma base_image_empty: "base_image [] = placeholder_image"
  by (simp add: base_image_def)




subsection \<open>The image after a selection\<close>

text \<open>
  Claim C5, as stated: after \<open>select(V)\<close> the image is V's primary IMAGE, else V's first
  IMAGE, else the base product's first IMAGE, else the placeholder. Size S has no media
  and the video shirt has no IMAGE entry, so the claim gives the placeholder; the handler
  shows the URL of the shirt's first media entry, the video.
\<close>

theorem select_image_falls_back_to_video:
  "v_media size_s = Some [] \<and>
   find (\<lambda>m. pm_type m = ''IMAGE'') (media video_shirt) = None \<and>
   selectedImage (handleVariantSelect size_s (loaded video_shirt [size_s])) = ''v.mp4'' \<and>
   spec_selected_image video_shirt size_s = ''/placeholder-image.png''"
  by (simp add: handleVariantSelect_def variant_image_def base_image_def or_default_def
      spec_selected_image_def placeholder_image_def loaded_eq size_s_def video_shirt_def shirt_def)

lemma variant_image_primary:
  "v_media v = Some ms \<Longrightarrow> find (\<lambda>x. vm_is_primary x \<and> is_image x) ms = Some m \<Longrightarrow>
   vm_media_url m \<noteq> [] \<Longrightarrow> variant_image p v = vm_media_url m"
  by (cases ms) (simp_all add: variant_image_def js_or_def truthy_def or_default_def)

lemma variant_image_first_image:
  "v_media v = Some ms \<Longrightarrow>
   \<not> truthy (map_option vm_media_url (find (\<lambda>x. vm_is_primary x \<and> is_image x) ms)) \<Longrightarrow>
   find is_image ms = Some m \<Longrightarrow> vm_media_url m \<noteq> [] \<Longrightarrow>
   variant_image p v = vm_media_url m"
  by (cases ms) (simp_all add: variant_image_def js_or_def truthy_def or_default_def Let_def)

lemma variant_image_no_media:
  "v_media v = None \<or> v_media v = Some [] \<Longrightarrow> variant_image p v = base_image (media p)"
  by (auto simp: variant_image_def)

lemma variant_image_nothing:
  "v_media v = Some ms \<Longrightarrow> ms \<noteq> [] \<Longrightarrow>
   \<not> truthy (map_option vm_media_url (find (\<lambda>x. vm_is_primary x \<and> is_image x) ms)) \<Longrightarrow>
   \<not> truthy (map_option vm_media_url (find is_image ms)) \<Longrightarrow> media p = [] \<Longrightarrow>
   variant_image p v = placeholder_image"
  by (cases ms) (simp_all add: variant_image_def js_or_def truthy_def or_default_def Let_def)

text \<open>
  Claim C5, amended. After \<open>select(v)\<close> on a loaded product \<open>p\<close> the image is the URL
  of \<open>v\<close>'s first media entry that is primary and an IMAGE; else the URL of \<open>v\<close>'s first
  IMAGE entry (an empty URL counts as absent). When \<open>v\<close> has no media, it is the image
  of the base product: the URL of \<open>p\<close>'s first IMAGE entry, else the URL of \<open>p\<close>'s first
  media entry of any kind, else the placeholder. When \<open>v\<close> has media that yield no image
  URL and \<open>p\<close> has no media, it is the placeholder.
\<close>

theorem select_image_preference:
  assumes "product st = Some p"
  shows
    "(\<forall>ms m. v_media v = Some ms \<and>
        find (\<lambda>x. vm_is_primary x \<and> is_image x) ms = Some m \<and> vm_media_url m \<noteq> [] \<longrightarrow>
        selectedImage (handleVariantSelect v st) = vm_media_url m) \<and>
     (\<forall>ms m. v_media v = Some ms \<and>
        \<not> truthy (map_option vm_media_url (find (\<lambda>x. vm_is_primary x \<and> is_image x) ms)) \<and>
        find is_image ms = Some m \<and> vm_media_url m \<noteq> [] \<longrightarrow>
        selectedImage (handleVariantSelect v st) = vm_media_url m) \<and>
     (v_media v = None \<or> v_media v = Some [] \<longrightarrow>
        selectedImage (handleVariantSelect v st) = base_image (media p)) \<and>
     (\<forall>m. find (\<lambda>m. pm_type m = ''IMAGE'') (media p) = Some m \<and> pm_url m \<noteq> [] \<longrightarrow>
        base_image (media p) = pm_url m) \<and>
     (\<forall>m0 rest. media p = m0 # rest \<and>
        \<not> truthy (map_option pm_url (find (\<lambda>m. pm_type m = ''IMAGE'') (media p))) \<longrightarrow>
        base_image (media p) = pm_url m0) \<and>
     (media p = [] \<longrightarrow> base_image (media p) = placeholder_image) \<and>
     (\<forall>ms. v_media v = Some ms \<and> ms \<noteq> [] \<and>
        \<not> truthy (map_option vm_media_url (find (\<lambda>x. vm_is_primary x \<and> is_image x) ms)) \<and>
        \<not> truthy (map_option vm_media_url (find is_image ms)) \<and> media p = [] \<longrightarrow>
        selectedImage (handleVariantSelect v st) = placeholder_image)"
proof -
  have img: "selectedImage (handleVariantSelect v st) = variant_image p v"
    using assms by (simp add: handleVariantSelect_def)
  have c1: "\<forall>ms m. v_media v = Some ms \<and>
        find (\<lambda>x. vm_is_primary x \<and> is_image x) ms = Some m \<and> vm_media_url m \<noteq> [] \<longrightarrow>
        variant_image p v = vm_media_url m"
    by (blast intro: variant_image_primary)
  have c2: "\<forall>ms m. v_media v = Some ms \<and>
        \<not> truthy (map_option vm_media_url (find (\<lambda>x. vm_is_primary x \<and> is_image x) ms)) \<and>
        find is_image ms = Some m \<and> vm_media_url m \<noteq> [] \<longrightarrow>
        variant_image p v = vm_media_url m"
    by (blast intro: variant_image_first_image)
  have c3: "v_media v = None \<or> v_media v = Some [] \<longrightarrow> variant_image p v = base_image (media p)"
    by (blast intro: variant_image_no_media)
  have c4: "\<forall>m. find (\<lambda>m. pm_type m = ''IMAGE'') (media p) = Some m \<and> pm_url m \<noteq> [] \<longrightarrow>
        base_image (media p) = pm_url m"
    by (blast intro: base_image_first_image)
  have c5: "\<forall>m0 rest. media p = m0 # rest \<and>
        \<not> truthy (map_option pm_url (find (\<lambda>m. pm_type m = ''IMAGE'') (media p))) \<longrightarrow>
        base_image (media p) = pm_url m0"
    using base_image_no_image by fastforce
  have c6: "media p = [] \<longrightarrow> base_image (media p) = placeholder_image"
    by (simp add: base_image_empty)
  have c7: "\<forall>ms. v_media v = Some ms \<and> ms \<noteq> [] \<and>
        \<not> truthy (map_option vm_media_url (find (\<lambda>x. vm_is_primary x \<and> is_image x) ms)) \<and>
        \<not> truthy (map_option vm_media_url (find is_image ms)) \<and> media p = [] \<longrightarrow>
        variant_image p v = placeholder_image"
    by (blast intro: variant_image_nothing)
  from c1 c2 c3 c4 c5 c6 c7 show ?thesis
    unfolding img by blast
qed

theorem select_image_preference_witness:
  "product shirt_page = Some shirt \<and>
   find (\<lambda>x. vm_is_primary x \<and> is_image x) (the (v_media size_m)) =
     Some \<lparr>vm_media_id = 8, vm_media_url = ''m-front.jpg'', vm_media_type = ''IMAGE'',
            vm_is_primary = True, vm_display_order = 1\<rparr> \<and>
   selectedImage (handleVariantSelect size_m shirt_page) = ''m-front.jpg'' \<and>
   v_media size_s = Some [] \<and>
   find (\<lambda>m. pm_type m = ''IMAGE'') (media shirt) =
     Some \<lparr>pm_media_id = 1, pm_type = ''IMAGE'', pm_url = ''a.jpg'', pm_sort_order = 0\<rparr> \<and>
   selectedImage (handleVariantSelect size_s shirt_page) = ''a.jpg''"
  using select_image_preference [of shirt_page shirt size_m]
    select_image_preference [of shirt_page shirt size_s]
  by (simp add: handleVariantSelect_def variant_image_def is_image_def js_or_def truthy_def
      or_default_def toUpperCase_def upper_char_def base_image_def
      shirt_page_def loaded_eq size_m_def size_s_def shirt_def)

subsection \<open>The cart line\<close>






text \<open>
  Claim C7. When \<open>addToCart()\<close> fails with \<open>OutOfStock\<close> or \<open>InsufficientStock\<close>, the
  state of the view after the call is the state before it: quantity, selected variant,
  display state and selected image included.
\<close>

theorem failed_addToCart_keeps_state:
  assumes "snd (handleAddToCart st) = Rejected e"
  shows "fst (handleAddToCart st) = st \<and>
     quantity (fst (handleAddToCart st)) = quantity st \<and>
     selectedVariant (fst (handleAddToCart st)) = selectedVariant st \<and>
     displayData (fst (handleAddToCart st)) = displayData st \<and>
     selectedImage (fst (handleAddToCart st)) = selectedImage st"
proof -
  have "fst (handleAddToCart st) = st"
    by (simp add: handleAddToCart_def split: option.splits)
  then show ?thesis by simp
qed

theorem failed_addToCart_keeps_state_witness:
  "snd (handleAddToCart (run [Select size_m, ChangeQuantity 5] shirt_page)) = Rejected InsufficientStock \<and>
   quantity (run [Select size_m, ChangeQuantity 5] shirt_page) = 6 \<and>
   fst (handleAddToCart (run [Select size_m, ChangeQuantity 5] shirt_page)) =
     run [Select size_m, ChangeQuantity 5] shirt_page"
  using failed_addToCart_keeps_state
    [of "run [Select size_m, ChangeQuantity 5] shirt_page" InsufficientStock]
  by (simp add: handleAddToCart_def handleVariantSelect_def handleQuantityChange_def
      currentStock_def shirt_page_def loaded_eq size_m_def)

text \<open>
  Claim C10. In the descriptor of a successful \<open>addToCart()\<close>, cost price, discount,
  category and brand name are the base product's, and are what they would be with no
  variant selected.
\<close>

theorem descriptor_base_fields:
  assumes "product st = Some p" and "handleAddToCart st = (st', Added cp q)"
  shows "cp_cost_price cp = Some (cost_price p) \<and>
     cp_discount_pct cp = Some (discount_pct p) \<and>
     cp_category cp = or_default (map_option category_name (category p)) ''Uncategorized'' \<and>
     cp_brand_name cp = map_option brand_name (brand p) \<and>
     cp_cost_price cp = cp_cost_price (cartProduct p None) \<and>
     cp_discount_pct cp = cp_discount_pct (cartProduct p None) \<and>
     cp_category cp = cp_category (cartProduct p None) \<and>
     cp_brand_name cp = cp_brand_name (cartProduct p None)"
proof -
  have "cp = cartProduct p (selectedVariant st)"
    using assms by (auto simp: handleAddToCart_def split: if_splits)
  then show ?thesis by (simp add: cartProduct_def)
qed

theorem descriptor_base_fields_witness:
  "product (run [Select size_m] shirt_page) = Some shirt \<and>
   handleAddToCart (run [Select size_m] shirt_page) =
     (run [Select size_m] shirt_page, Added (cartProduct shirt (Some size_m)) 1) \<and>
   cp_price (cartProduct shirt (Some size_m)) = v_price size_m \<and>
   cp_sku (cartProduct shirt (Some size_m)) = v_sku size_m \<and>
   cp_cost_price (cartProduct shirt (Some size_m)) = Some 12 \<and>
   cp_discount_pct (cartProduct shirt (Some size_m)) = Some 5 \<and>
   cp_category (cartProduct shirt (Some size_m)) = ''Clothing'' \<and>
   cp_brand_name (cartProduct shirt (Some size_m)) = Some ''Acme''"
  using descriptor_base_fields
    [of "run [Select size_m] shirt_page" shirt "run [Select size_m] shirt_page"
        "cartProduct shirt (Some size_m)" 1]
  by (simp add: handleAddToCart_def handleVariantSelect_def cartProduct_def currentStock_def
      or_default_def shirt_page_def loaded_eq size_m_def shirt_def)

subsection \<open>Invariants over sequences of events\<close>

lemma coherent_loaded: "coherent p (loaded p vs)"
  by (simp add: coherent_def base_shape_def loaded_eq)

lemma coherent_step: "coherent p st \<Longrightarrow> coherent p (step e st)"
proof (cases e)
  case (Select v)
  assume "coherent p st"
  then show ?thesis
    using Select
    by (simp add: coherent_def merged_shape_def handleVariantSelect_def newDisplayData_def)
next
  case Clear
  assume "coherent p st"
  then show ?thesis
    using Clear by (simp add: coherent_def base_shape_def clearVariantSelection_def)
next
  case (ChangeQuantity d)
  assume "coherent p st"
  then show ?thesis
    using ChangeQuantity
    by (simp add: coherent_def base_shape_def merged_shape_def handleQuantityChange_def
        split: option.splits)
next
  case AddToCart
  assume "coherent p st"
  then show ?thesis
    using AddToCart by (simp add: handleAddToCart_def split: option.splits)
next
  case (Thumbnail u)
  assume "coherent p st"
  then show ?thesis
    using Thumbnail
    by (simp add: coherent_def base_shape_def merged_shape_def split: option.splits)
qed

lemma coherent_run: "coherent p st \<Longrightarrow> coherent p (run es st)"
  by (induction es arbitrary: st) (simp_all add: coherent_step)

text \<open>
  Claim C8. After every sequence of events on a loaded product \<open>p\<close> (selections and
  clearings, and also quantity changes, add-to-cart and thumbnails), the display state
  has the base shape when no variant is selected and the merged shape of the selected
  variant otherwise, and never both.
\<close>

theorem display_state_never_partial:
  "product (run es (loaded p vs)) = Some p \<and>
   (case selectedVariant (run es (loaded p vs)) of
      None \<Rightarrow> base_shape p (run es (loaded p vs))
    | Some v \<Rightarrow> merged_shape p v (run es (loaded p vs))) \<and>
   \<not> (base_shape p (run es (loaded p vs)) \<and> merged_shape p v (run es (loaded p vs)))"
  using coherent_run [OF coherent_loaded [of p vs], of es]
  by (simp add: coherent_def base_shape_def merged_shape_def)

theorem display_state_never_partial_witness:
  "selectedVariant (run [Select size_l, ChangeQuantity 2, Thumbnail ''b.jpg'', AddToCart, Clear]
                      shirt_page) = None \<and>
   displayData (run [Select size_l, ChangeQuantity 2, Thumbnail ''b.jpg'', AddToCart, Clear]
                  shirt_page) = Some shirt \<and>
   selectedVariant (run [Select size_m, Clear, Select size_l] shirt_page) = Some size_l \<and>
   displayData (run [Select size_m, Clear, Select size_l] shirt_page) =
     Some (shirt\<lparr>selling_price := 22, stock := Some 0, sku := Some ''SH-L'',
                  attributes := [\<lparr>attribute_id = - 2001, attribute_name = ''Size'',
                                   value_code = Some ''size-l'', value_text = ''L'',
                                   value_label = Some ''L'', is_text_based = True\<rparr>]\<rparr>)"
  using display_state_never_partial
      [of "[Select size_l, ChangeQuantity 2, Thumbnail ''b.jpg'', AddToCart, Clear]"
          shirt "[size_m, size_l, size_s]" size_l]
    display_state_never_partial
      [of "[Select size_m, Clear, Select size_l]" shirt "[size_m, size_l, size_s]" size_l]
  by (simp add: handleVariantSelect_def clearVariantSelection_def handleQuantityChange_def
      handleAddToCart_def newDisplayData_def display_attributes_def display_attribute_def
      toLowerCase_def lower_char_def is_space_def enumerate_eq_zip
      shirt_page_def loaded_eq size_l_def shirt_def)

lemma step_floor: "1 \<le> quantity st \<Longrightarrow> 1 \<le> quantity (step e st)"
  by (cases e)
     (simp_all add: handleVariantSelect_def clearVariantSelection_def handleQuantityChange_def
        handleAddToCart_def split: option.splits)

lemma run_floor: "1 \<le> quantity st \<Longrightarrow> 1 \<le> quantity (run es st)"
  by (induction es arbitrary: st) (simp_all add: step_floor)

lemma fetch_floor: "1 \<le> quantity st \<Longrightarrow> 1 \<le> quantity (fetchProductData pid pr vr st)"
  by (simp add: fetchProductData_def catch_error_def Let_def split: response.splits)

text \<open>
  Claim C9. The quantity starts at 1; on a loaded product \<open>select(v)\<close> and \<open>clear()\<close>
  set it to 1; the quantity handler never yields less than 1, whatever the delta;
  \<open>addToCart()\<close> leaves it as it is; so a quantity of at least 1 stays so through a
  fetch, through every event and through every sequence of events, and is at least 1 in
  every state reached from the initial one.
\<close>

theorem quantity_never_below_one:
  "quantity initial_state = 1 \<and>
   (product st = Some p \<longrightarrow>
      quantity (handleVariantSelect v st) = 1 \<and> quantity (clearVariantSelection st) = 1) \<and>
   1 \<le> quantity (handleQuantityChange d st) \<and>
   quantity (fst (handleAddToCart st)) = quantity st \<and>
   (1 \<le> quantity st \<longrightarrow> 1 \<le> quantity (fetchProductData pid pr vr st)) \<and>
   (1 \<le> quantity st \<longrightarrow> 1 \<le> quantity (step e st) \<and> 1 \<le> quantity (run es st)) \<and>
   1 \<le> quantity (run es (fetchProductData pid pr vr initial_state))"
proof -
  have init: "quantity initial_state = 1"
    by (simp add: initial_state_def)
  have sel: "product st = Some p \<longrightarrow>
      quantity (handleVariantSelect v st) = 1 \<and> quantity (clearVariantSelection st) = 1"
    by (simp add: handleVariantSelect_def clearVariantSelection_def)
  have chg: "1 \<le> quantity (handleQuantityChange d st)"
    by (simp add: handleQuantityChange_def)
  have add: "quantity (fst (handleAddToCart st)) = quantity st"
    by (simp add: handleAddToCart_def split: option.splits)
  have "1 \<le> quantity (fetchProductData pid pr vr initial_state)"
    by (rule fetch_floor) (simp add: init)
  then have reach: "1 \<le> quantity (run es (fetchProductData pid pr vr initial_state))"
    by (rule run_floor)
  show ?thesis
    using init sel chg add reach by (simp add: fetch_floor step_floor run_floor)
qed

theorem quantity_never_below_one_witness:
  "product shirt_page = Some shirt \<and>
   quantity (handleQuantityChange 4 shirt_page) = 5 \<and>
   quantity (handleVariantSelect size_m (handleQuantityChange 4 shirt_page)) = 1 \<and>
   quantity (clearVariantSelection (handleQuantityChange 4 shirt_page)) = 1 \<and>
   quantity (handleQuantityChange (- 9) (handleQuantityChange 4 shirt_page)) = 1 \<and>
   1 \<le> quantity (handleQuantityChange 4 shirt_page) \<and>
   quantity (run [Select size_l, AddToCart, ChangeQuantity (- 3), Clear, ChangeQuantity 2, AddToCart]
               (handleQuantityChange 4 shirt_page)) = 3"
  using quantity_never_below_one
    [of "handleQuantityChange 4 shirt_page" shirt size_m "- 9" None "Threw None" "Threw None"
        "Select size_l"
        "[Select size_l, AddToCart, ChangeQuantity (- 3), Clear, ChangeQuantity 2, AddToCart]"]
  by (simp add: handleVariantSelect_def clearVariantSelection_def handleQuantityChange_def
      handleAddToCart_def shirt_page_def loaded_eq)

end
